theory Spec2Isabelle
  imports Complex_Main "HOL-Library.Char_ord" "HOL-Library.List_Lexorder"
begin

section \<open>The users service of \<open>main.py\<close>\<close>

text \<open>
  The service keeps one table, \<open>users\<close>, with the columns \<open>id\<close>, \<open>name\<close>
  (unique) and \<open>age\<close>, and offers five request handlers. Each handler opens a
  session on the database, runs its statements in one transaction and either commits or
  leaves the session without committing, which discards what the transaction did.

  A handler is modelled as a function from the committed table to its outcome and the
  committed table after the call. The outcome is a sum: \<open>Inl\<close> the \<open>HTTPException\<close>
  that is raised, \<open>Inr\<close> the returned body.

  The database engine is not part of the repository. It is modelled as an ideal,
  sequential store: the table is the list of its rows in insertion order, a row is the
  pair of its \<open>name\<close> and \<open>age\<close>, ages are unbounded integers, and the generated
  \<open>id\<close> column, which takes part in no check, is left out. The handler \<open>get_users\<close>
  only lists the table and is not modelled.
\<close>

subsection \<open>Data\<close>

text \<open>
  Modelled from the spec: the class \<open>UserCreate\<close> of \<open>model.py\<close>, the request body of
  \<open>create_user\<close>, is imported by \<open>main.py\<close> and is not among the sources. The spec gives
  CreateUser the input \<open>name: text, age: integer\<close>; these are the two fields the
  handler reads.
\<close>

record UserCreate =
  name :: string
  age :: int

text \<open>A row of the table \<open>users\<close> (columns \<open>name\<close>, \<open>age\<close>) and the table.\<close>

type_synonym users_row = "string \<times> int"
type_synonym users_table = "users_row list"

text \<open>
  A row of the uploaded CSV, as the loop reads it: \<open>row['Name']\<close>, \<open>row['Age']\<close>. The
  name is the text that formatting the cell yields, the age an integer cell.
\<close>

record csv_row =
  Name :: string
  Age :: int

datatype HTTPException = HTTPException (status_code: nat) (detail: string)

text \<open>What the database driver raises.\<close>

datatype db_error = ProgrammingError | IntegrityError

subsection \<open>Statements with bound parameters\<close>

text \<open>
  \<open>text("SELECT * FROM users WHERE name = :name")\<close> executed with \<open>{"name": n}\<close>:
  the value \<open>n\<close> reaches the engine as data, and the rows with that name come back.
\<close>

definition select_by_name :: "users_table \<Rightarrow> string \<Rightarrow> users_row list" where
  "select_by_name t n = filter (\<lambda>r. fst r = n) t"

text \<open>
  Adding a row. The column \<open>name\<close> is declared \<open>unique=True\<close>, so the engine refuses a
  second row of the same name.
\<close>

definition insert_row :: "users_table \<Rightarrow> users_row \<Rightarrow> db_error + users_table" where
  "insert_row t r = (if fst r \<in> set (map fst t) then Inl IntegrityError else Inr (t @ [r]))"


subsection \<open>\<open>create_user\<close> and \<open>delete_user\<close>\<close>

definition apostrophe :: char where
  "apostrophe = CHR 0x27"

definition internal_server_error :: HTTPException where
  "internal_server_error = HTTPException 500 ''Internal server error''"

text \<open>
  \<open>create_user\<close>: the name check, then the age check, then the lookup, then the insert
  and the commit. Every \<open>HTTPException\<close> is raised before anything is written; any other
  exception becomes the 500 response and the transaction is not committed.
\<close>

definition create_user :: "users_table \<Rightarrow> UserCreate \<Rightarrow> (HTTPException + string) \<times> users_table" where
  "create_user db data =
     (if name data = [] then
        (Inl (HTTPException 422 ''User name cannot be empty''), db)
      else if age data > 120 then
        (Inl (HTTPException 400 ''User age cannot exceed 120 years''), db)
      else if select_by_name db (name data) \<noteq> [] then
        (Inl (HTTPException 400 ''User already exists''), db)
      else
        (case insert_row db (name data, age data) of
           Inl e \<Rightarrow> (Inl internal_server_error, db)
         | Inr db' \<Rightarrow>
             (Inr (''User '' @ [apostrophe] @ name data @ [apostrophe] @ '' created successfully''),
              db')))"


subsection \<open>Statements sent as plain text\<close>

text \<open>
  \<open>upload_users\<close> builds its two statements with f-strings and hands the resulting
  text to \<open>db.execute\<close>:
  \<^verbatim>\<open>f"SELECT 1 FROM users WHERE name = '{name}'"\<close> and
  \<^verbatim>\<open>f"INSERT INTO users (name, age) VALUES ('{name}', {age})"\<close>.
  Formatting an integer gives its decimal digits, with a minus sign when negative.
\<close>

definition digit_char :: "nat \<Rightarrow> char" where
  "digit_char d = ''0123456789'' ! d"

fun str_nat :: "nat \<Rightarrow> string" where
  "str_nat n = (if n < 10 then [digit_char n] else str_nat (n div 10) @ [digit_char (n mod 10)])"

declare str_nat.simps [simp del]

definition str_int :: "int \<Rightarrow> string" where
  "str_int i = (if i < 0 then CHR ''-'' # str_nat (nat (- i)) else str_nat (nat i))"

definition select_query :: "string \<Rightarrow> string" where
  "select_query n = ''SELECT 1 FROM users WHERE name = '' @ [apostrophe] @ n @ [apostrophe]"

definition insert_query :: "string \<Rightarrow> int \<Rightarrow> string" where
  "insert_query n a =
     ''INSERT INTO users (name, age) VALUES ('' @ [apostrophe] @ n @ [apostrophe] @ '', ''
       @ str_int a @ '')''"

text \<open>
  The engine reads such a text as SQL. Inside a quoted literal a doubled apostrophe
  stands for one apostrophe and a single apostrophe ends the literal. \<open>sql_literal\<close>
  reads a literal whose opening apostrophe has been consumed and returns its value and
  the text after its closing apostrophe; \<open>None\<close> is the unterminated literal.
\<close>

fun sql_literal :: "string \<Rightarrow> (string \<times> string) option" where
  "sql_literal [] = None"
| "sql_literal [c] = (if c = apostrophe then Some ([], []) else None)"
| "sql_literal (c # d # cs) =
     (if c = apostrophe then
        (if d = apostrophe then map_option (apfst ((#) apostrophe)) (sql_literal cs)
         else Some ([], d # cs))
      else map_option (apfst ((#) c)) (sql_literal (d # cs)))"

definition digit_val :: "char \<Rightarrow> nat option" where
  "digit_val c = map_of (zip ''0123456789'' [0, 1, 2, 3, 4, 5, 6, 7, 8, 9]) c"

fun read_nat :: "string \<Rightarrow> nat \<Rightarrow> nat option" where
  "read_nat [] acc = Some acc"
| "read_nat (c # cs) acc =
     (case digit_val c of None \<Rightarrow> None | Some d \<Rightarrow> read_nat cs (10 * acc + d))"

definition sql_integer :: "string \<Rightarrow> int option" where
  "sql_integer s =
     (case s of
        [] \<Rightarrow> None
      | c # cs \<Rightarrow>
          if c = CHR ''-'' then
            (if cs = [] then None else map_option (\<lambda>n. - int n) (read_nat cs 0))
          else map_option int (read_nat s 0))"

fun strip_prefix :: "string \<Rightarrow> string \<Rightarrow> string option" where
  "strip_prefix [] s = Some s"
| "strip_prefix (p # ps) [] = None"
| "strip_prefix (p # ps) (c # cs) = (if p = c then strip_prefix ps cs else None)"

text \<open>
  The two shapes of statement the upload sends. A text of neither shape is refused as a
  syntax error. That is what an engine does with an unbalanced apostrophe, the case the
  examples below use; a text in which a name smuggles further valid SQL is outside this
  model.
\<close>

datatype statement = Select string | Insert string int

definition parse_statement :: "string \<Rightarrow> statement option" where
  "parse_statement q =
     (case strip_prefix (''SELECT 1 FROM users WHERE name = '' @ [apostrophe]) q of
        Some r \<Rightarrow>
          (case sql_literal r of
             Some (v, rest) \<Rightarrow> if rest = [] then Some (Select v) else None
           | None \<Rightarrow> None)
      | None \<Rightarrow>
          (case strip_prefix (''INSERT INTO users (name, age) VALUES ('' @ [apostrophe]) q of
             Some r \<Rightarrow>
               (case sql_literal r of
                  Some (v, rest) \<Rightarrow>
                    (case strip_prefix '', '' rest of
                       Some num \<Rightarrow>
                         if num \<noteq> [] \<and> last num = CHR 0x29 then
                           map_option (Insert v) (sql_integer (butlast num))
                         else None
                     | None \<Rightarrow> None)
                | None \<Rightarrow> None)
           | None \<Rightarrow> None))"

text \<open>
  \<open>db.execute(query)\<close> on a plain text, inside the open transaction: the rows that
  come back and the table as the transaction now sees it, or the error raised.
\<close>

definition execute :: "users_table \<Rightarrow> string \<Rightarrow> db_error + (users_row list \<times> users_table)" where
  "execute t q =
     (case parse_statement q of
        None \<Rightarrow> Inl ProgrammingError
      | Some (Select v) \<Rightarrow> Inr (select_by_name t v, t)
      | Some (Insert v a) \<Rightarrow>
          (case insert_row t (v, a) of Inl e \<Rightarrow> Inl e | Inr t' \<Rightarrow> Inr ([], t')))"


subsection \<open>\<open>upload_users\<close>\<close>

text \<open>
  The input is the sequence of rows that \<open>csv_data.iterrows()\<close> yields; reading the
  file into that sequence is the CSV library's work and is not modelled. The body of the
  loop, on the table as the transaction sees it:
\<close>

definition upload_row :: "users_table \<Rightarrow> csv_row \<Rightarrow> db_error + users_table" where
  "upload_row w row =
     (case execute w (select_query (Name row)) of
        Inl e \<Rightarrow> Inl e
      | Inr (result, w1) \<Rightarrow>
          if result = [] then
            (case execute w1 (insert_query (Name row) (Age row)) of
               Inl e \<Rightarrow> Inl e
             | Inr (_, w2) \<Rightarrow> Inr w2)
          else Inr w1)"

text \<open>The loop: an exception in one row leaves the loop at that row.\<close>

fun upload_rows :: "users_table \<Rightarrow> csv_row list \<Rightarrow> db_error + users_table" where
  "upload_rows w [] = Inr w"
| "upload_rows w (row # rows) =
     (case upload_row w row of Inl e \<Rightarrow> Inl e | Inr w' \<Rightarrow> upload_rows w' rows)"

text \<open>
  \<open>upload_users\<close>: the loop, then one commit. An exception is answered with the 500
  response; the session is closed without a commit, so the committed table stays as it
  was.
\<close>

definition upload_users :: "users_table \<Rightarrow> csv_row list \<Rightarrow> (HTTPException + string) \<times> users_table" where
  "upload_users db rows =
     (case upload_rows db rows of
        Inl e \<Rightarrow> (Inl internal_server_error, db)
      | Inr w \<Rightarrow> (Inr ''Users from CSV uploaded successfully'', w))"

subsection \<open>\<open>get_average_age_by_group\<close>\<close>






section \<open>Properties\<close>

lemma select_by_name_empty_iff: "select_by_name t n = [] \<longleftrightarrow> n \<notin> fst ` set t"
  by (auto simp: select_by_name_def filter_empty_conv)

subsection \<open>Reading back the texts the upload builds\<close>













subsection \<open>The loop of the upload\<close>





subsection \<open>Deleting by name\<close>



subsection \<open>What a finished loop has done\<close>



subsection \<open>Group keys\<close>




subsection \<open>The claims\<close>






text \<open>
  C3: the checks run in a fixed order and the first failure wins. An empty name is
  refused with the name error whatever the age is; the age error is raised exactly for
  a non-empty name with an age above 120; in both cases nothing is stored.
\<close>

theorem create_user_validation_order:
  "(name data = [] \<longrightarrow>
      create_user db data = (Inl (HTTPException 422 ''User name cannot be empty''), db)) \<and>
   (fst (create_user db data) = Inl (HTTPException 400 ''User age cannot exceed 120 years'')
      \<longleftrightarrow> name data \<noteq> [] \<and> age data > 120) \<and>
   (name data \<noteq> [] \<and> age data > 120 \<longrightarrow> snd (create_user db data) = db)"
  by (auto simp: create_user_def internal_server_error_def split: sum.splits)

theorem create_user_validation_order_witness:
  "create_user [(''Bob'', 20)] \<lparr>name = [], age = 999\<rparr>
     = (Inl (HTTPException 422 ''User name cannot be empty''), [(''Bob'', 20)]) \<and>
   create_user [(''Bob'', 20)] \<lparr>name = ''Wukong'', age = 999\<rparr>
     = (Inl (HTTPException 400 ''User age cannot exceed 120 years''), [(''Bob'', 20)])"
  using create_user_validation_order [of "\<lparr>name = [], age = 999\<rparr>" "[(''Bob'', 20)]"]
    create_user_validation_order [of "\<lparr>name = ''Wukong'', age = 999\<rparr>" "[(''Bob'', 20)]"]
  by (simp add: prod_eq_iff)

text \<open>
  C4, as the code has it: once a Create of a name has succeeded, a second Create of that
  name fails and stores nothing, and exactly one row of that name is in the table. The
  failure is the conflict whenever the second age is at most 120; an age above 120 is
  refused by the age check, which runs before the lookup.
\<close>

theorem create_twice_conflict:
  assumes "create_user db \<lparr>name = n, age = a1\<rparr> = (Inr ok, db')"
  shows "(a2 \<le> 120 \<longrightarrow>
           fst (create_user db' \<lparr>name = n, age = a2\<rparr>) = Inl (HTTPException 400 ''User already exists''))
         \<and> (\<exists>e. fst (create_user db' \<lparr>name = n, age = a2\<rparr>) = Inl e)
         \<and> snd (create_user db' \<lparr>name = n, age = a2\<rparr>) = db'
         \<and> length (select_by_name db' n) = 1"
proof -
  from assms have n: "n \<noteq> []" and absent: "n \<notin> fst ` set db" and db': "db' = db @ [(n, a1)]"
    by (auto simp: create_user_def select_by_name_empty_iff insert_row_def split: if_splits)
  from absent have "select_by_name db n = []" by (simp add: select_by_name_empty_iff)
  then have one: "select_by_name db' n = [(n, a1)]" by (simp add: db' select_by_name_def)
  with n show ?thesis by (simp add: create_user_def)
qed

theorem create_twice_conflict_witness:
  "fst (create_user [(''Bob'', 30)] \<lparr>name = ''Bob'', age = 31\<rparr>)
     = Inl (HTTPException 400 ''User already exists'') \<and>
   snd (create_user [(''Bob'', 30)] \<lparr>name = ''Bob'', age = 31\<rparr>) = [(''Bob'', 30)] \<and>
   length (select_by_name [(''Bob'', 30)] ''Bob'') = 1"
proof -
  have first: "create_user [] \<lparr>name = ''Bob'', age = 30\<rparr>
      = (Inr (''User '' @ [apostrophe] @ ''Bob'' @ [apostrophe] @ '' created successfully''),
         [(''Bob'', 30)])"
    by (simp add: create_user_def select_by_name_def insert_row_def)
  from create_twice_conflict [OF first, of 31] show ?thesis by simp
qed

text \<open>
  C4 as stated fails: after Bob has been created, a second Create of Bob with age 999
  is answered with the age error, not with the conflict.
\<close>

theorem create_twice_age_error_first:
  "create_user [] \<lparr>name = ''Bob'', age = 30\<rparr>
     = (Inr (''User '' @ [apostrophe] @ ''Bob'' @ [apostrophe] @ '' created successfully''),
        [(''Bob'', 30)]) \<and>
   create_user [(''Bob'', 30)] \<lparr>name = ''Bob'', age = 999\<rparr>
     = (Inl (HTTPException 400 ''User age cannot exceed 120 years''), [(''Bob'', 30)]) \<and>
   fst (create_user [(''Bob'', 30)] \<lparr>name = ''Bob'', age = 999\<rparr>)
     \<noteq> Inl (HTTPException 400 ''User already exists'')"
  by (simp add: create_user_def select_by_name_def insert_row_def)









text \<open>
  C9 does not hold of the code: the upload puts the name into the statement text. For
  the name O'Brien the text sent is read by the engine as the literal O followed by
  more text, the engine refuses it and the upload fails, where \<open>create_user\<close>, which
  binds the name as a parameter, stores the same name. A name with a doubled apostrophe
  is stored with a single one.
\<close>

theorem upload_interpolates_name_into_sql:
  "select_query (''O'' @ [apostrophe] @ ''Brien'')
     = ''SELECT 1 FROM users WHERE name = '' @ [apostrophe] @ ''O'' @ [apostrophe] @ ''Brien''
         @ [apostrophe] \<and>
   execute [] (select_query (''O'' @ [apostrophe] @ ''Brien'')) = Inl ProgrammingError \<and>
   upload_users [] [\<lparr>Name = ''O'' @ [apostrophe] @ ''Brien'', Age = 40\<rparr>]
     = (Inl (HTTPException 500 ''Internal server error''), []) \<and>
   snd (create_user [] \<lparr>name = ''O'' @ [apostrophe] @ ''Brien'', age = 40\<rparr>)
     = [(''O'' @ [apostrophe] @ ''Brien'', 40)] \<and>
   upload_users [] [\<lparr>Name = ''a'' @ [apostrophe, apostrophe] @ ''b'', Age = 1\<rparr>]
     = (Inr ''Users from CSV uploaded successfully'', [(''a'' @ [apostrophe] @ ''b'', 1)])"
  by code_simp



end
